theory Spec2Isabelle
  imports Complex_Main
begin

section \<open>Portfolio model (src/schwab/portfolio.py)\<close>

text \<open>
  Python floats are modelled as \<^typ>\<open>real\<close>: the arithmetic is exact, and rounding,
  infinities and NaN are outside the model. Log output and timestamps are not modelled.

  \<open>instrument_data\<close> is only ever read through
  \<open>instrument_data.get('fundamental', {}).get('sector' | 'beta')\<close>; the two entries are
  the optional fields \<open>sector\<close> and \<open>beta\<close> (\<open>None\<close>: the key is absent).
  \<open>weight\<close> is the \<open>_weight\<close> attribute behind the \<open>weight\<close> property: 0 until the
  owning portfolio sets it.
\<close>

record Position =
  symbol :: string
  quantity :: real
  asset_type :: string
  cost_basis :: real
  market_value :: real
  current_price :: real
  sector :: "string option"
  beta :: "real option"
  weight :: real

definition Position_init ::
  "string \<Rightarrow> real \<Rightarrow> string \<Rightarrow> real \<Rightarrow> real \<Rightarrow> real \<Rightarrow> string option \<Rightarrow> real option \<Rightarrow> Position" where
  "Position_init sy qty atype cb mv cp sec b =
     \<lparr>symbol = sy, quantity = qty, asset_type = atype, cost_basis = cb,
      market_value = mv, current_price = cp, sector = sec, beta = b, weight = 0\<rparr>"

text \<open>\<open>sectors\<close> is a Python set; the model keeps its elements as a duplicate-free list.
  \<open>sector_allocations\<close> is a dict, kept as an association list in iteration order.\<close>

record Portfolio =
  account_id :: string
  positions :: "Position list"
  account_value :: real
  cash_balance :: real
  sectors :: "string list"
  sector_allocations :: "(string \<times> real) list"

definition position_sector :: "Position \<Rightarrow> string" where
  "position_sector p = (case sector p of None \<Rightarrow> ''Unknown'' | Some s \<Rightarrow> s)"

definition calculate_position_weights :: "real \<Rightarrow> Position list \<Rightarrow> Position list" where
  "calculate_position_weights av ps =
     (if av = 0 then map (\<lambda>p. p\<lparr>weight := 0\<rparr>) ps
      else map (\<lambda>p. p\<lparr>weight := market_value p / av * 100\<rparr>) ps)"

definition get_sectors :: "Position list \<Rightarrow> string list" where
  "get_sectors ps = remdups (map position_sector ps)"

definition calculate_sector_allocations ::
  "real \<Rightarrow> Position list \<Rightarrow> string list \<Rightarrow> (string \<times> real) list" where
  "calculate_sector_allocations av ps secs =
     map (\<lambda>s. let sector_value = sum_list (map market_value (filter (\<lambda>p. position_sector p = s) ps))
              in (s, if av > 0 then sector_value / av * 100 else 0)) secs"

text \<open>The dataclass constructor followed by \<open>__post_init__\<close>.\<close>

definition Portfolio_init :: "string \<Rightarrow> Position list \<Rightarrow> real \<Rightarrow> real \<Rightarrow> Portfolio" where
  "Portfolio_init aid ps av cash =
     (let ps' = calculate_position_weights av ps;
          secs = get_sectors ps'
      in \<lparr>account_id = aid, positions = ps', account_value = av, cash_balance = cash,
          sectors = secs, sector_allocations = calculate_sector_allocations av ps' secs\<rparr>)"

definition total_market_value :: "Portfolio \<Rightarrow> real" where
  "total_market_value pf = sum_list (map market_value (positions pf))"

definition cash_allocation :: "Portfolio \<Rightarrow> real" where
  "cash_allocation pf =
     (if account_value pf > 0 then cash_balance pf / account_value pf * 100 else 0)"

definition get_position_by_symbol :: "Portfolio \<Rightarrow> string \<Rightarrow> Position option" where
  "get_position_by_symbol pf sy = find (\<lambda>p. symbol p = sy) (positions pf)"


section \<open>Risk assessment (src/analysis/risk.py)\<close>

definition np_mean :: "real list \<Rightarrow> real" where
  "np_mean xs = sum_list xs / real (length xs)"

text \<open>\<open>numpy.std\<close>: the population standard deviation.\<close>

definition np_std :: "real list \<Rightarrow> real" where
  "np_std xs = sqrt (np_mean (map (\<lambda>x. (x - np_mean xs)\<^sup>2) xs))"

definition calculate_diversification_risk :: "Portfolio \<Rightarrow> real" where
  "calculate_diversification_risk pf =
     (if positions pf = [] then 0
      else
        let num_positions = length (positions pf);
            base_score = (if num_positions \<ge> 20 then 0
                          else if num_positions \<ge> 15 then 20
                          else if num_positions \<ge> 10 then 40
                          else if num_positions \<ge> 5 then 60
                          else (80::real));
            weights = map weight (positions pf);
            weight_std = (if weights \<noteq> [] then np_std weights else 0);
            std_factor = min (weight_std * 2) 20;
            asset_types = remdups (map asset_type (positions pf));
            asset_type_factor = max 0 (20 - real (length asset_types) * 5);
            diversification_risk = base_score + std_factor + asset_type_factor
        in min diversification_risk 100)"

text \<open>The penalty loop \<open>for position in portfolio.positions: if position.weight > 10: ...\<close>,
  started from the normalised score.\<close>

definition concentration_penalty :: "Position \<Rightarrow> real \<Rightarrow> real" where
  "concentration_penalty p concentration_risk =
     (if weight p > 10 then concentration_risk + (weight p - 10) * 2 else concentration_risk)"

definition calculate_concentration_risk :: "Portfolio \<Rightarrow> real" where
  "calculate_concentration_risk pf =
     (if positions pf = [] then 0
      else
        let weights = map (\<lambda>p. weight p / 100) (positions pf);
            hhi = sum_list (map (\<lambda>w. w\<^sup>2) weights);
            n = length (positions pf);
            min_hhi = (if n > 0 then 1 / real n else 0);
            normalized_hhi = (if n > 1 then (hhi - min_hhi) / (1 - min_hhi) else 1);
            concentration_risk = fold concentration_penalty (positions pf) (normalized_hhi * 100)
        in min concentration_risk 100)"

definition sector_penalty :: "string \<times> real \<Rightarrow> real \<Rightarrow> real" where
  "sector_penalty sa sector_risk =
     (if snd sa > 25 then sector_risk + (snd sa - 25) * 3 else sector_risk)"

definition calculate_sector_risk :: "Portfolio \<Rightarrow> real" where
  "calculate_sector_risk pf =
     (if positions pf = [] then 0
      else
        let sector_weights = map (\<lambda>sa. snd sa / 100) (sector_allocations pf);
            sector_hhi = sum_list (map (\<lambda>w. w\<^sup>2) sector_weights);
            n = length (sector_allocations pf);
            min_hhi = (if n > 0 then 1 / real n else 0);
            normalized_hhi = (if n > 1 then (sector_hhi - min_hhi) / (1 - min_hhi) else 1);
            sector_risk = fold sector_penalty (sector_allocations pf) (normalized_hhi * 100)
        in min sector_risk 100)"

text \<open>The accumulation loop of \<open>calculate_market_risk\<close>: the state is the pair
  \<open>(weighted_beta, total_weight_with_beta)\<close>.\<close>

definition market_step :: "Position \<Rightarrow> real \<times> real \<Rightarrow> real \<times> real" where
  "market_step p acc =
     (case beta p of
        None \<Rightarrow> acc
      | Some b \<Rightarrow> (fst acc + (weight p / 100) * b, snd acc + weight p / 100))"

definition calculate_market_risk :: "Portfolio \<Rightarrow> real" where
  "calculate_market_risk pf =
     (let acc = fold market_step (positions pf) (0, 0);
          weighted_beta = fst acc;
          total_weight_with_beta = snd acc
      in if total_weight_with_beta = 0 then 50
         else
           let weighted_beta = (if total_weight_with_beta < 1
                                then weighted_beta / total_weight_with_beta else weighted_beta);
               market_risk = 50 * weighted_beta
           in max 0 (min market_risk 100))"

text \<open>
  A pandas data frame enters \<open>calculate_volatility_risk\<close> only through
  \<open>df['close'].pct_change().std() * (252 ** 0.5)\<close>, a computation of the pandas library.
  The model keeps of a frame that value: \<open>None\<close> when the frame has no \<open>close\<close> column.
\<close>

record DataFrame =
  close_volatility :: "real option"

definition volatility_step ::
  "(string \<times> DataFrame) list \<Rightarrow> Position \<Rightarrow> real \<times> real \<Rightarrow> real \<times> real" where
  "volatility_step historical_data p acc =
     (case map_of historical_data (symbol p) of
        None \<Rightarrow> acc
      | Some df \<Rightarrow>
          (case close_volatility df of
             None \<Rightarrow> acc
           | Some volatility \<Rightarrow>
               (fst acc + (weight p / 100) * volatility, snd acc + weight p / 100)))"

definition calculate_volatility_risk :: "Portfolio \<Rightarrow> (string \<times> DataFrame) list \<Rightarrow> real" where
  "calculate_volatility_risk pf historical_data =
     (let acc = fold (volatility_step historical_data) (positions pf) (0, 0);
          weighted_volatility = fst acc;
          total_weight_with_data = snd acc
      in if total_weight_with_data = 0 then 50
         else
           let weighted_volatility = (if total_weight_with_data < 1
                                      then weighted_volatility / total_weight_with_data
                                      else weighted_volatility);
               volatility_risk = (weighted_volatility / 0.4) * 100
           in max 0 (min volatility_risk 100))"

definition sector_allocation_of :: "Portfolio \<Rightarrow> string \<Rightarrow> real" where
  "sector_allocation_of pf s = (case map_of (sector_allocations pf) s of None \<Rightarrow> 0 | Some a \<Rightarrow> a)"

definition calculate_position_risk :: "Position \<Rightarrow> Portfolio \<Rightarrow> real" where
  "calculate_position_risk p pf =
     (let w = weight p;
          size_risk = (if w > 15 then 100
                       else if w > 10 then 50 + (w - 10) * 10
                       else if w > 5 then (w - 5) * 10
                       else 0);
          beta_risk = (case beta p of Some b \<Rightarrow> max 0 (min (b * 50) 100) | None \<Rightarrow> 50);
          sector_allocation = sector_allocation_of pf (position_sector p);
          sector_risk = (if sector_allocation > 25 then 50 + (sector_allocation - 25) * 2
                         else (sector_allocation / 25) * 50);
          risk_score = 0.4 * size_risk + 0.4 * beta_risk + 0.2 * sector_risk
      in min risk_score 100)"

record position_risk =
  pr_symbol :: string
  risk_score :: real
  pr_weight :: real
  pr_beta :: "real option"

text \<open>The result dict of \<open>calculate_portfolio_risk\<close>: its scalar entries as a map from key
  to value, and the list under \<open>"position_risks"\<close>.\<close>

record risk_metrics =
  scores :: "string \<rightharpoonup> real"
  position_risks :: "position_risk list"

definition initial_scores :: "string \<rightharpoonup> real" where
  "initial_scores =
     [''overall_risk_score'' \<mapsto> 0, ''diversification_risk'' \<mapsto> 0, ''market_risk'' \<mapsto> 0,
      ''volatility_risk'' \<mapsto> 0, ''concentration_risk'' \<mapsto> 0, ''sector_risk'' \<mapsto> 0]"

text \<open>\<open>historical_data\<close> is \<open>None\<close> or a dict; \<open>if historical_data:\<close> holds for a nonempty
  dict only.\<close>

definition calculate_portfolio_risk ::
  "Portfolio \<Rightarrow> (string \<times> DataFrame) list option \<Rightarrow> risk_metrics" where
  "calculate_portfolio_risk pf historical_data =
     (let diversification_risk = calculate_diversification_risk pf;
          m1 = initial_scores(''diversification_risk'' \<mapsto> diversification_risk);
          concentration_risk = calculate_concentration_risk pf;
          m2 = m1(''concentration_risk'' \<mapsto> concentration_risk);
          sector_risk = calculate_sector_risk pf;
          m3 = m2(''sector_risk'' \<mapsto> sector_risk);
          market_risk = calculate_market_risk pf;
          m4 = m3(''market_risk'' \<mapsto> market_risk);
          m5 = (case historical_data of
                  None \<Rightarrow> m4
                | Some [] \<Rightarrow> m4
                | Some hist \<Rightarrow> m4(''volatility_risk'' \<mapsto> calculate_volatility_risk pf hist));
          prs = map (\<lambda>p. \<lparr>pr_symbol = symbol p, risk_score = calculate_position_risk p pf,
                           pr_weight = weight p, pr_beta = beta p\<rparr>) (positions pf);
          overall_risk = 0.25 * diversification_risk + 0.25 * concentration_risk
                         + 0.2 * sector_risk + 0.3 * market_risk;
          overall_risk = (case m5 ''volatility_risk'' of
                            Some volatility_risk \<Rightarrow>
                              0.2 * diversification_risk + 0.2 * concentration_risk
                              + 0.15 * sector_risk + 0.25 * market_risk + 0.2 * volatility_risk
                          | None \<Rightarrow> overall_risk)
      in \<lparr>scores = m5(''overall_risk_score'' \<mapsto> overall_risk), position_risks = prs\<rparr>)"


section \<open>Recommendations and configuration\<close>

datatype action = BUY | SELL

text \<open>The rationale of a recommendation is free text; the texts the strategy builds with
  f-strings are kept as the template and the values it formats.\<close>

datatype rationale =
    Text string
  | ExceedsMaximumSize real
  | SectorExceedsMaximumExposure string real
  | HighRiskScore real
  | CashAboveTargetNewPosition real real
  | CashAboveTargetIncreasePosition real real
  | WeightsUneven real

text \<open>
  Modelled from the spec: the class \<open>Recommendation\<close>, which the sources import from
  \<open>src.analysis.recommendation\<close> but which is not defined there. The spec gives it an
  action out of the closed set BUY/SELL, a symbol, an optional absolute quantity, an
  optional percentage, a rationale text and a priority (higher is more urgent); the
  sources construct it by keyword (\<open>action\<close>, \<open>symbol\<close>, \<open>quantity\<close>, \<open>percentage\<close>,
  \<open>rationale\<close>) and assign \<open>priority\<close> afterwards.
\<close>

record Recommendation =
  action :: action
  rec_symbol :: string
  rec_quantity :: "real option"
  percentage :: "real option"
  rationale :: rationale
  priority :: int

text \<open>The configuration dict: one optional field per key that the sources read with
  \<open>config.get(key, default)\<close>; \<open>None\<close> is an absent key. \<open>dict_get\<close> is
  \<open>d.get(key, default)\<close> on such an optional entry, of this dict and of the others.\<close>

record Config =
  RISK_TOLERANCE :: "int option"
  MAX_POSITION_SIZE_PERCENT :: "real option"
  MAX_SECTOR_EXPOSURE_PERCENT :: "real option"
  MIN_CASH_RESERVE_PERCENT :: "real option"
  MIN_TRADE_QUANTITY :: "real option"
  MAX_TRADE_QUANTITY :: "real option"
  MIN_POSITION_SIZE :: "real option"
  MAX_TRADES_PER_SESSION :: "int option"
  ENABLE_AUTO_TRADING :: "bool option"
  DRY_RUN :: "bool option"
  SCHWAB_ACCOUNT_ID :: "string option"

definition dict_get :: "'a option \<Rightarrow> 'a \<Rightarrow> 'a" where
  "dict_get entry dflt = (case entry of None \<Rightarrow> dflt | Some v \<Rightarrow> v)"

datatype error =
    ZeroDivisionError
  | SchwabClientError string
  | OtherError string
  | TradeExecutionError string error


section \<open>The risk-averse strategy (src/trading/strategy.py)\<close>

text \<open>Python's \<open>round\<close> on a float: to the nearest integer, a tie to the even one.\<close>

definition py_round :: "real \<Rightarrow> int" where
  "py_round x =
     (let f = \<lfloor>x\<rfloor>; d = x - of_int f
      in if d < 1 / 2 then f else if d > 1 / 2 then f + 1 else if even f then f else f + 1)"

text \<open>\<open>sorted(xs, key=k, reverse=True)\<close> and \<open>xs.sort(key=k, reverse=True)\<close>: descending
  by key, elements with equal keys in their original order.\<close>

definition sort_reverse :: "('a \<Rightarrow> 'k::{linorder,uminus}) \<Rightarrow> 'a list \<Rightarrow> 'a list" where
  "sort_reverse k xs = sort_key (\<lambda>x. - k x) xs"

text \<open>The methods of \<open>RiskAverseStrategy\<close> (their Python names start with an underscore)
  append to the list \<open>recommendations\<close>; the model returns the extended list. A float
  division by zero raises.\<close>

fun check_position_sizes_loop ::
  "Position list \<Rightarrow> real \<Rightarrow> Recommendation list \<Rightarrow> error + Recommendation list" where
  "check_position_sizes_loop [] max_position_size recommendations = Inr recommendations"
| "check_position_sizes_loop (position # rest) max_position_size recommendations =
     (if weight position > max_position_size then
        (let excess_pct = weight position - max_position_size
         in if weight position = 0 then Inl ZeroDivisionError
            else
              let reduction_pct = (excess_pct / weight position) * 100;
                  reduction_pct = py_round reduction_pct;
                  recommendation =
                    \<lparr>action = SELL, rec_symbol = symbol position, rec_quantity = None,
                     percentage = Some (of_int reduction_pct),
                     rationale = ExceedsMaximumSize max_position_size, priority = 10\<rparr>
              in check_position_sizes_loop rest max_position_size
                   (recommendations @ [recommendation]))
      else check_position_sizes_loop rest max_position_size recommendations)"

definition check_position_sizes ::
  "Portfolio \<Rightarrow> real \<Rightarrow> Recommendation list \<Rightarrow> error + Recommendation list" where
  "check_position_sizes pf max_position_size recommendations =
     check_position_sizes_loop (positions pf) max_position_size recommendations"

fun check_sector_exposures_loop ::
  "(string \<times> real) list \<Rightarrow> Portfolio \<Rightarrow> real \<Rightarrow> Recommendation list
     \<Rightarrow> error + Recommendation list" where
  "check_sector_exposures_loop [] pf max_sector_exposure recommendations = Inr recommendations"
| "check_sector_exposures_loop ((sec, allocation) # rest) pf max_sector_exposure recommendations =
     (if allocation > max_sector_exposure then
        (let excess_pct = allocation - max_sector_exposure;
             sector_positions = filter (\<lambda>p. position_sector p = sec) (positions pf)
         in case sort_reverse weight sector_positions of
              [] \<Rightarrow> check_sector_exposures_loop rest pf max_sector_exposure recommendations
            | largest_position # _ \<Rightarrow>
                (let reduction_value = (excess_pct / 100) * account_value pf
                 in if market_value largest_position = 0 then Inl ZeroDivisionError
                    else
                      let position_reduction_pct =
                            min ((reduction_value / market_value largest_position) * 100) 50;
                          position_reduction_pct = py_round position_reduction_pct
                      in if position_reduction_pct > 0 then
                           check_sector_exposures_loop rest pf max_sector_exposure
                             (recommendations @
                                [\<lparr>action = SELL, rec_symbol = symbol largest_position,
                                  rec_quantity = None,
                                  percentage = Some (of_int position_reduction_pct),
                                  rationale = SectorExceedsMaximumExposure sec max_sector_exposure,
                                  priority = 9\<rparr>])
                         else check_sector_exposures_loop rest pf max_sector_exposure
                                recommendations))
      else check_sector_exposures_loop rest pf max_sector_exposure recommendations)"

definition check_sector_exposures ::
  "Portfolio \<Rightarrow> real \<Rightarrow> Recommendation list \<Rightarrow> error + Recommendation list" where
  "check_sector_exposures pf max_sector_exposure recommendations =
     check_sector_exposures_loop (sector_allocations pf) pf max_sector_exposure recommendations"

fun check_high_risk_positions_loop ::
  "position_risk list \<Rightarrow> Portfolio \<Rightarrow> int \<Rightarrow> Recommendation list \<Rightarrow> Recommendation list" where
  "check_high_risk_positions_loop [] pf risk_threshold recommendations = recommendations"
| "check_high_risk_positions_loop (pr # rest) pf risk_threshold recommendations =
     (if risk_score pr > of_int risk_threshold then
        (case get_position_by_symbol pf (pr_symbol pr) of
           None \<Rightarrow> check_high_risk_positions_loop rest pf risk_threshold recommendations
         | Some position \<Rightarrow>
             (let excess_risk = risk_score pr - of_int risk_threshold;
                  reduction_pct = min excess_risk 50;
                  reduction_pct = py_round reduction_pct
              in if reduction_pct > 0 then
                   check_high_risk_positions_loop rest pf risk_threshold
                     (recommendations @
                        [\<lparr>action = SELL, rec_symbol = pr_symbol pr, rec_quantity = None,
                          percentage = Some (of_int reduction_pct),
                          rationale = HighRiskScore (risk_score pr), priority = 8\<rparr>])
                 else check_high_risk_positions_loop rest pf risk_threshold recommendations))
      else check_high_risk_positions_loop rest pf risk_threshold recommendations)"

text \<open>\<open>position_risks\<close> is what the strategy reads from the analysis results:
  \<open>analysis_results.get("risk_metrics", {}).get("position_risks", [])\<close>.\<close>

definition check_high_risk_positions ::
  "Portfolio \<Rightarrow> position_risk list \<Rightarrow> int \<Rightarrow> Recommendation list \<Rightarrow> Recommendation list" where
  "check_high_risk_positions pf prs risk_tolerance recommendations =
     (let risk_threshold = 100 - (risk_tolerance * 10)
      in check_high_risk_positions_loop prs pf risk_threshold recommendations)"

definition check_cash_deployment ::
  "Config \<Rightarrow> Portfolio \<Rightarrow> Recommendation list \<Rightarrow> Recommendation list" where
  "check_cash_deployment config pf recommendations =
     (let risk_tolerance = dict_get (RISK_TOLERANCE config) 5;
          target_cash_pct = max 5 (20 - of_int risk_tolerance * 1.5);
          current_cash_pct = cash_allocation pf
      in if current_cash_pct > target_cash_pct + 10 then
           (let excess_cash_pct = current_cash_pct - target_cash_pct
            in if length (positions pf) < 15 then
                 recommendations @
                   [\<lparr>action = BUY, rec_symbol = ''VTI'', rec_quantity = None,
                     percentage = Some (excess_cash_pct / 2),
                     rationale = CashAboveTargetNewPosition current_cash_pct target_cash_pct,
                     priority = 5\<rparr>]
               else
                 (let max_position_size = dict_get (MAX_POSITION_SIZE_PERCENT config) 10
                  in case find (\<lambda>position.
                            (asset_type position = ''ETF'' \<or> dict_get (beta position) 1.5 < 1.0)
                            \<and> weight position < max_position_size / 2) (positions pf) of
                       None \<Rightarrow> recommendations
                     | Some position \<Rightarrow>
                         recommendations @
                           [\<lparr>action = BUY, rec_symbol = symbol position, rec_quantity = None,
                             percentage = Some (excess_cash_pct / 3),
                             rationale = CashAboveTargetIncreasePosition current_cash_pct
                                           target_cash_pct,
                             priority = 5\<rparr>]))
         else recommendations)"

definition check_rebalancing_opportunities ::
  "Portfolio \<Rightarrow> Recommendation list \<Rightarrow> Recommendation list" where
  "check_rebalancing_opportunities pf recommendations =
     (if length (positions pf) < 3 then recommendations
      else
        let weights = map weight (positions pf);
            weight_std = np_std weights
        in if weight_std > 8 then
             (let sorted_positions = sort_reverse weight (positions pf);
                  largest_position = hd sorted_positions;
                  smallest_position = last sorted_positions
              in if weight largest_position > 3 * weight smallest_position
                    \<and> weight smallest_position > 0 then
                   (let weight_diff = weight largest_position - weight smallest_position;
                        transfer_pct = py_round (weight_diff * 0.2)
                    in if transfer_pct \<ge> 5 then
                         recommendations @
                           [\<lparr>action = SELL, rec_symbol = symbol largest_position,
                             rec_quantity = None, percentage = Some (of_int transfer_pct),
                             rationale = WeightsUneven weight_std, priority = 6\<rparr>,
                            \<lparr>action = BUY, rec_symbol = symbol smallest_position,
                             rec_quantity = None, percentage = Some (of_int transfer_pct),
                             rationale = WeightsUneven weight_std, priority = 6\<rparr>]
                       else recommendations)
                 else recommendations)
           else recommendations)"

definition generate_recommendations ::
  "Config \<Rightarrow> Portfolio \<Rightarrow> position_risk list \<Rightarrow> error + Recommendation list" where
  "generate_recommendations config pf prs =
     (let risk_tolerance = dict_get (RISK_TOLERANCE config) 5;
          max_position_size = dict_get (MAX_POSITION_SIZE_PERCENT config) 10;
          max_sector_exposure = dict_get (MAX_SECTOR_EXPOSURE_PERCENT config) 25
      in case check_position_sizes pf max_position_size [] of
           Inl e \<Rightarrow> Inl e
         | Inr recs1 \<Rightarrow>
             (case check_sector_exposures pf max_sector_exposure recs1 of
                Inl e \<Rightarrow> Inl e
              | Inr recs2 \<Rightarrow>
                  (let recs3 = check_high_risk_positions pf prs risk_tolerance recs2;
                       recs4 = check_cash_deployment config pf recs3;
                       recs5 = check_rebalancing_opportunities pf recs4
                   in Inr (sort_reverse priority recs5))))"


section \<open>The brokerage client (interface of src/schwab/client.py)\<close>

text \<open>
  The validator and the executor see the client through three methods, each of which
  returns or raises. The client is stateful and outside the core (the tests replace it
  by a mock), so the model takes its answers as functions of the calls made so far.
  The log of calls is the state that the functions below thread through; besides the
  client's methods it records each invocation of \<open>validate_trade\<close> by the executor and
  each \<open>time.sleep\<close>.

  A quote table maps a symbol to its quote, of which only the optional \<open>lastPrice\<close> is
  read. \<open>create_equity_order\<close> answers with the optional \<open>orderId\<close> of the response.
\<close>

datatype call =
    GetQuote "string list"
  | GetPortfolio
  | CreateEquityOrder string real string bool
  | ValidateTrade Recommendation
  | Sleep nat

record SchwabClient =
  get_quote :: "call list \<Rightarrow> string list \<Rightarrow> error + (string \<rightharpoonup> real option)"
  get_portfolio :: "call list \<Rightarrow> error + Portfolio"
  create_equity_order :: "call list \<Rightarrow> string \<Rightarrow> real \<Rightarrow> string \<Rightarrow> bool \<Rightarrow> error + string option"


section \<open>Trade validation (src/trading/validation.py)\<close>

text \<open>The \<open>reason\<close> strings, as the template and the values it formats.\<close>

datatype reason =
    NoReason
  | InvalidSymbol string
  | CouldNotGetCurrentPrice string
  | FailedToGetData error
  | SellQuantityExceedsPosition real real
  | InsufficientCashToBuyPercentage real
  | CannotSellPercentageOfNonExistentPosition real
  | SellPercentageResultsInZeroShares
  | CannotSellNonExistentPosition
  | InsufficientCashForDefaultBuy
  | QuantityBelowMinimum real real
  | InsufficientCash real real
  | BelowMinimumCashReserve real
  | ExceedsMaximumPositionSize real
  | CannotSellNonExistentPositionOf string
  | InsufficientShares real real
  | BelowMinimumPositionSize real

text \<open>The result dicts: \<open>valid\<close> and \<open>reason\<close>, and for \<open>validate_quantity\<close> and
  \<open>validate_trade\<close> also \<open>quantity\<close>.\<close>

record check_result =
  valid :: bool
  reason :: reason

record validation_result = check_result +
  result_quantity :: real

text \<open>\<open>int(x)\<close> on a float truncates towards zero.\<close>

definition py_int :: "real \<Rightarrow> int" where
  "py_int x = (if x \<ge> 0 then \<lfloor>x\<rfloor> else \<lceil>x\<rceil>)"

definition validate_symbol :: "string \<Rightarrow> SchwabClient \<Rightarrow> call list \<Rightarrow> bool \<times> call list" where
  "validate_symbol sy client h =
     (case get_quote client h [sy] of
        Inr quotes \<Rightarrow> (quotes sy \<noteq> None, h @ [GetQuote [sy]])
      | Inl e \<Rightarrow> (False, h @ [GetQuote [sy]]))"

text \<open>The tail of \<open>validate_quantity\<close>, reached by every branch that has not returned.\<close>

definition apply_quantity_limits :: "Config \<Rightarrow> real \<Rightarrow> validation_result" where
  "apply_quantity_limits config qty =
     (let min_quantity = dict_get (MIN_TRADE_QUANTITY config) 1;
          max_quantity = dict_get (MAX_TRADE_QUANTITY config) 10000
      in if qty < min_quantity then
           \<lparr>valid = False, reason = QuantityBelowMinimum qty min_quantity, result_quantity = 0\<rparr>
         else
           let qty = (if qty > max_quantity then max_quantity else qty)
           in \<lparr>valid = True, reason = NoReason, result_quantity = qty\<rparr>)"

definition validate_quantity ::
  "Recommendation \<Rightarrow> Position option \<Rightarrow> Portfolio \<Rightarrow> real \<Rightarrow> Config \<Rightarrow> validation_result" where
  "validate_quantity recommendation position pf cur_price config =
     (case rec_quantity recommendation of
        Some qty \<Rightarrow>
          (if action recommendation = SELL
              \<and> (case position of None \<Rightarrow> True | Some pos \<Rightarrow> quantity pos < qty) then
             (let max_quantity = (case position of None \<Rightarrow> 0 | Some pos \<Rightarrow> quantity pos)
              in \<lparr>valid = False, reason = SellQuantityExceedsPosition qty max_quantity,
                  result_quantity = 0\<rparr>)
           else apply_quantity_limits config qty)
      | None \<Rightarrow>
          (case percentage recommendation of
             Some pct \<Rightarrow>
               (case action recommendation of
                  BUY \<Rightarrow>
                    (let cash = cash_balance pf;
                         value_to_trade = cash * (pct / 100);
                         qty = (if cur_price > 0 then value_to_trade / cur_price else 0);
                         qty = py_int qty
                     in if qty \<le> 0 then
                          \<lparr>valid = False, reason = InsufficientCashToBuyPercentage pct,
                           result_quantity = 0\<rparr>
                        else apply_quantity_limits config (of_int qty))
                | SELL \<Rightarrow>
                    (case position of
                       None \<Rightarrow>
                         \<lparr>valid = False, reason = CannotSellPercentageOfNonExistentPosition pct,
                          result_quantity = 0\<rparr>
                     | Some pos \<Rightarrow>
                         (let qty = quantity pos * (pct / 100);
                              qty = py_int qty
                          in if qty \<le> 0 then
                               \<lparr>valid = False, reason = SellPercentageResultsInZeroShares,
                                result_quantity = 0\<rparr>
                             else apply_quantity_limits config (of_int qty))))
           | None \<Rightarrow>
               (case action recommendation of
                  SELL \<Rightarrow>
                    (case position of
                       None \<Rightarrow>
                         \<lparr>valid = False, reason = CannotSellNonExistentPosition,
                          result_quantity = 0\<rparr>
                     | Some pos \<Rightarrow> apply_quantity_limits config (quantity pos))
                | BUY \<Rightarrow>
                    (let cash = cash_balance pf;
                         default_percentage = 5;
                         value_to_trade = cash * (default_percentage / 100);
                         qty = (if cur_price > 0 then value_to_trade / cur_price else 0);
                         qty = py_int qty
                     in if qty \<le> 0 then
                          \<lparr>valid = False, reason = InsufficientCashForDefaultBuy,
                           result_quantity = 0\<rparr>
                        else apply_quantity_limits config (of_int qty)))))"

definition validate_buy ::
  "Recommendation \<Rightarrow> Portfolio \<Rightarrow> real \<Rightarrow> real \<Rightarrow> Config \<Rightarrow> error + check_result" where
  "validate_buy recommendation pf qty cur_price config =
     (let cash = cash_balance pf;
          cost = qty * cur_price
      in if cost > cash then Inr \<lparr>valid = False, reason = InsufficientCash cash cost\<rparr>
         else
           let min_cash_reserve = dict_get (MIN_CASH_RESERVE_PERCENT config) 5;
               min_cash_amount = account_value pf * (min_cash_reserve / 100);
               remaining_cash = cash - cost
           in if remaining_cash < min_cash_amount then
                Inr \<lparr>valid = False, reason = BelowMinimumCashReserve min_cash_amount\<rparr>
              else
                let max_position_size = dict_get (MAX_POSITION_SIZE_PERCENT config) 10;
                    existing_position = get_position_by_symbol pf (rec_symbol recommendation);
                    existing_value = (case existing_position of None \<Rightarrow> 0
                                      | Some pos \<Rightarrow> market_value pos);
                    new_value = existing_value + cost
                in if account_value pf + cost - existing_value = 0 then Inl ZeroDivisionError
                   else
                     let new_weight =
                           (new_value / (account_value pf + cost - existing_value)) * 100
                     in if new_weight > max_position_size then
                          Inr \<lparr>valid = False,
                               reason = ExceedsMaximumPositionSize max_position_size\<rparr>
                        else Inr \<lparr>valid = True, reason = NoReason\<rparr>)"

definition validate_sell ::
  "Recommendation \<Rightarrow> Position option \<Rightarrow> real \<Rightarrow> Config \<Rightarrow> check_result" where
  "validate_sell recommendation position qty config =
     (case position of
        None \<Rightarrow>
          \<lparr>valid = False, reason = CannotSellNonExistentPositionOf (rec_symbol recommendation)\<rparr>
      | Some pos \<Rightarrow>
          if qty > quantity pos then
            \<lparr>valid = False, reason = InsufficientShares (quantity pos) qty\<rparr>
          else
            let min_position_size = dict_get (MIN_POSITION_SIZE config) 1;
                new_quantity = quantity pos - qty
            in if 0 < new_quantity \<and> new_quantity < min_position_size then
                 \<lparr>valid = False, reason = BelowMinimumPositionSize min_position_size\<rparr>
               else \<lparr>valid = True, reason = NoReason\<rparr>)"

definition rejected :: "reason \<Rightarrow> validation_result" where
  "rejected r = \<lparr>valid = False, reason = r, result_quantity = 0\<rparr>"

text \<open>\<open>validate_trade\<close>: the \<open>try\<close> block covers the two client calls only, and turns
  whatever they raise into a rejection; an exception of \<open>validate_buy\<close> escapes.\<close>

definition validate_trade ::
  "Recommendation \<Rightarrow> SchwabClient \<Rightarrow> Config \<Rightarrow> call list
     \<Rightarrow> (error + validation_result) \<times> call list" where
  "validate_trade recommendation client config h =
     (let sy = rec_symbol recommendation;
          (symbol_ok, h1) = validate_symbol sy client h
      in if \<not> symbol_ok then (Inr (rejected (InvalidSymbol sy)), h1)
         else
           let h2 = h1 @ [GetPortfolio]
           in case get_portfolio client h1 of
                Inl e \<Rightarrow> (Inr (rejected (FailedToGetData e)), h2)
              | Inr pf \<Rightarrow>
                  (let position = get_position_by_symbol pf sy;
                       h3 = h2 @ [GetQuote [sy]]
                   in case get_quote client h2 [sy] of
                        Inl e \<Rightarrow> (Inr (rejected (FailedToGetData e)), h3)
                      | Inr quotes \<Rightarrow>
                          (let cur_price =
                                 (case quotes sy of None \<Rightarrow> 0
                                  | Some quote \<Rightarrow> dict_get quote 0)
                           in if cur_price = 0 then
                                (Inr (rejected (CouldNotGetCurrentPrice sy)), h3)
                              else
                                let quantity_result =
                                      validate_quantity recommendation position pf
                                        cur_price config
                                in if \<not> valid quantity_result then
                                     (Inr (rejected (reason quantity_result)), h3)
                                   else
                                     let qty = result_quantity quantity_result
                                     in case action recommendation of
                                          BUY \<Rightarrow>
                                            (case validate_buy recommendation pf qty
                                                    cur_price config of
                                               Inl e \<Rightarrow> (Inl e, h3)
                                             | Inr buy_validation \<Rightarrow>
                                                 if \<not> valid buy_validation then
                                                   (Inr \<lparr>valid = False,
                                                         reason = reason buy_validation,
                                                         result_quantity = qty\<rparr>, h3)
                                                 else
                                                   (Inr \<lparr>valid = True, reason = NoReason,
                                                         result_quantity = qty\<rparr>, h3))
                                        | SELL \<Rightarrow>
                                            (let sell_validation =
                                                   validate_sell recommendation position qty config
                                             in if \<not> valid sell_validation then
                                                  (Inr \<lparr>valid = False,
                                                        reason = reason sell_validation,
                                                        result_quantity = qty\<rparr>, h3)
                                                else
                                                  (Inr \<lparr>valid = True, reason = NoReason,
                                                        result_quantity = qty\<rparr>, h3)))))"


section \<open>Trade execution (src/trading/executor.py)\<close>

record ExecutedTrade =
  trade_symbol :: string
  trade_action :: action
  trade_quantity :: real
  price :: "real option"
  order_id :: "string option"
  status :: string

definition instruction_of :: "action \<Rightarrow> string" where
  "instruction_of a = (if a = BUY then ''BUY'' else ''SELL'')"

definition execute_single_trade ::
  "Recommendation \<Rightarrow> real \<Rightarrow> SchwabClient \<Rightarrow> string option \<Rightarrow> bool \<Rightarrow> call list
     \<Rightarrow> (error + ExecutedTrade) \<times> call list" where
  "execute_single_trade recommendation qty client acct dry_run h =
     (let sy = rec_symbol recommendation;
          act = action recommendation;
          instruction = instruction_of act;
          h1 = h @ [CreateEquityOrder sy qty instruction dry_run]
      in case create_equity_order client h sy qty instruction dry_run of
           Inl e \<Rightarrow> (Inl (TradeExecutionError sy e), h1)
         | Inr order_result \<Rightarrow>
             if dry_run then
               (Inr \<lparr>trade_symbol = sy, trade_action = act, trade_quantity = qty,
                     price = None, order_id = None, status = ''simulated''\<rparr>, h1)
             else
               let oid = order_result;
                   st = (if oid \<noteq> None \<and> oid \<noteq> Some [] then ''completed'' else ''failed'')
               in (Inr \<lparr>trade_symbol = sy, trade_action = act, trade_quantity = qty,
                        price = None, order_id = oid, status = st\<rparr>, h1))"

text \<open>
  The loop of \<open>execute_trades\<close> over the sorted recommendations, \<open>i\<close> being the index of
  \<open>enumerate\<close> and \<open>n\<close> the length of the sorted list. The body is one \<open>try\<close> block whose
  handler catches every exception, logs it and goes on with the next recommendation.
\<close>

fun execute_loop ::
  "SchwabClient \<Rightarrow> Config \<Rightarrow> string option \<Rightarrow> bool \<Rightarrow> int \<Rightarrow> nat \<Rightarrow> nat
     \<Rightarrow> Recommendation list \<Rightarrow> ExecutedTrade list \<Rightarrow> call list
     \<Rightarrow> ExecutedTrade list \<times> call list" where
  "execute_loop client config acct dry_run max_trades n i [] executed_trades h =
     (executed_trades, h)"
| "execute_loop client config acct dry_run max_trades n i (recommendation # rest)
       executed_trades h =
     (if int i \<ge> max_trades then (executed_trades, h)
      else
        case validate_trade recommendation client config (h @ [ValidateTrade recommendation]) of
          (Inl e, h1) \<Rightarrow>
            execute_loop client config acct dry_run max_trades n (Suc i) rest executed_trades h1
        | (Inr validation_result, h1) \<Rightarrow>
            if \<not> valid validation_result then
              execute_loop client config acct dry_run max_trades n (Suc i) rest executed_trades h1
            else
              let qty = result_quantity validation_result
              in case execute_single_trade recommendation qty client acct dry_run h1 of
                   (Inl e, h2) \<Rightarrow>
                     execute_loop client config acct dry_run max_trades n (Suc i) rest
                       executed_trades h2
                 | (Inr executed_trade, h2) \<Rightarrow>
                     (let h3 = (if int i < int n - 1 then h2 @ [Sleep 1] else h2)
                      in execute_loop client config acct dry_run max_trades n (Suc i) rest
                           (executed_trades @ [executed_trade]) h3))"

text \<open>\<open>execute_trades\<close> returns its list, or an exception escapes to its caller (\<open>Inl\<close>);
  the second component is the log of calls.\<close>

definition execute_trades ::
  "Recommendation list \<Rightarrow> SchwabClient \<Rightarrow> Config \<Rightarrow> call list
     \<Rightarrow> (error + ExecutedTrade list) \<times> call list" where
  "execute_trades recommendations client config h =
     (let dry_run = dict_get (DRY_RUN config) True;
          auto_trading_enabled = dict_get (ENABLE_AUTO_TRADING config) False
      in if \<not> auto_trading_enabled then (Inr [], h)
         else
           let acct = SCHWAB_ACCOUNT_ID config;
               sorted_recommendations = sort_reverse priority recommendations;
               max_trades = dict_get (MAX_TRADES_PER_SESSION config) 5;
               (executed_trades, h') =
                 execute_loop client config acct dry_run max_trades
                   (length sorted_recommendations) 0 sorted_recommendations [] h
           in (Inr executed_trades, h'))"


section \<open>Auxiliary notions for the proofs\<close>

text \<open>The surcharge that one weight adds in the penalty loop of
  \<open>calculate_concentration_risk\<close>, and the score as a function of the list of weights.\<close>

definition over_ten :: "real \<Rightarrow> real" where
  "over_ten w = (if w > 10 then (w - 10) * 2 else 0)"

definition normalized_hhi_of_weights :: "real list \<Rightarrow> real" where
  "normalized_hhi_of_weights ws =
     (if length ws > 1
      then (sum_list (map (\<lambda>w. w\<^sup>2) ws) / 10000 - 1 / real (length ws)) / (1 - 1 / real (length ws))
      else 1)"

definition concentration_of_weights :: "real list \<Rightarrow> real" where
  "concentration_of_weights ws =
     (if ws = [] then 0
      else min (normalized_hhi_of_weights ws * 100 + sum_list (map over_ten ws)) 100)"


section \<open>Example inputs\<close>

text \<open>The fixtures of tests/test_trading.py.\<close>

definition aapl :: Position where
  "aapl = Position_init ''AAPL'' 10 ''EQUITY'' 150 1700 170 (Some ''Technology'') (Some 1.2)"

definition msft :: Position where
  "msft = Position_init ''MSFT'' 5 ''EQUITY'' 200 1250 250 (Some ''Technology'') (Some 1.1)"

definition test_portfolio :: Portfolio where
  "test_portfolio = Portfolio_init ''test_account'' [aapl, msft] 5000 2050"

definition test_config :: Config where
  "test_config =
     \<lparr>RISK_TOLERANCE = Some 3, MAX_POSITION_SIZE_PERCENT = Some 25,
      MAX_SECTOR_EXPOSURE_PERCENT = Some 40, MIN_CASH_RESERVE_PERCENT = Some 5,
      MIN_TRADE_QUANTITY = None, MAX_TRADE_QUANTITY = None, MIN_POSITION_SIZE = None,
      MAX_TRADES_PER_SESSION = Some 3, ENABLE_AUTO_TRADING = Some True, DRY_RUN = Some True,
      SCHWAB_ACCOUNT_ID = None\<rparr>"

definition test_position_risks :: "position_risk list" where
  "test_position_risks =
     [\<lparr>pr_symbol = ''AAPL'', risk_score = 75, pr_weight = 34, pr_beta = Some 1.2\<rparr>,
      \<lparr>pr_symbol = ''MSFT'', risk_score = 65, pr_weight = 25, pr_beta = Some 1.1\<rparr>]"

definition buy_rec :: Recommendation where
  "buy_rec = \<lparr>action = BUY, rec_symbol = ''VTI'', rec_quantity = Some 5, percentage = None,
              rationale = Text ''Diversification'', priority = 5\<rparr>"

definition sell_rec :: Recommendation where
  "sell_rec = \<lparr>action = SELL, rec_symbol = ''AAPL'', rec_quantity = None, percentage = Some 30,
               rationale = Text ''Reduce concentration'', priority = 8\<rparr>"

definition test_quotes :: "string \<rightharpoonup> real option" where
  "test_quotes = [''AAPL'' \<mapsto> Some 170, ''MSFT'' \<mapsto> Some 250, ''VTI'' \<mapsto> Some 220]"

text \<open>A client whose first \<open>get_portfolio\<close> raises and whose later ones answer.\<close>

definition flaky_client :: SchwabClient where
  "flaky_client =
     \<lparr>get_quote = (\<lambda>h syms. Inr test_quotes),
      get_portfolio = (\<lambda>h. if GetPortfolio \<in> set h then Inr test_portfolio
                            else Inl (SchwabClientError ''Failed to get portfolio'')),
      create_equity_order = (\<lambda>h sy qty instruction dry_run. Inr None)\<rparr>"

text \<open>A recommendation that carries a quantity and a percentage.\<close>

definition both_rec :: Recommendation where
  "both_rec = \<lparr>action = BUY, rec_symbol = ''VTI'', rec_quantity = Some 5, percentage = Some 30,
               rationale = Text ''Diversification'', priority = 5\<rparr>"

text \<open>One position that is the whole account; two positions of 10 percent each beside
  80 percent cash; a position worth half of the reported account value with no cash.\<close>

definition single_position_portfolio :: Portfolio where
  "single_position_portfolio =
     Portfolio_init ''acct'' [Position_init ''AAPL'' 1 ''EQUITY'' 100 100 100 None None] 100 0"

definition cash_heavy_portfolio :: Portfolio where
  "cash_heavy_portfolio =
     Portfolio_init ''acct''
       [Position_init ''AAPL'' 1 ''EQUITY'' 10 10 10 None None,
        Position_init ''MSFT'' 1 ''EQUITY'' 10 10 10 None None] 100 80"

definition half_reported_portfolio :: Portfolio where
  "half_reported_portfolio =
     Portfolio_init ''acct'' [Position_init ''AAPL'' 1 ''EQUITY'' 50 50 50 None None] 100 0"

definition empty_portfolio :: Portfolio where
  "empty_portfolio = Portfolio_init ''test_account'' [] 1000 1000"

text \<open>Ten positions without cash: one of 1 percent beside nine of 11 percent, and the
  same account after the first position has grown to 10 percent and the others have
  shrunk by the common factor 10/11.\<close>

definition holding :: "string \<Rightarrow> real \<Rightarrow> Position" where
  "holding sy mv = Position_init sy 1 ''EQUITY'' mv mv mv None None"

definition uneven_ten :: Portfolio where
  "uneven_ten =
     Portfolio_init ''acct''
       [holding ''A'' 1, holding ''B'' 11, holding ''C'' 11, holding ''D'' 11, holding ''E'' 11,
        holding ''F'' 11, holding ''G'' 11, holding ''H'' 11, holding ''I'' 11, holding ''J'' 11]
       100 0"

definition even_ten :: Portfolio where
  "even_ten =
     Portfolio_init ''acct''
       [holding ''A'' 10, holding ''B'' 10, holding ''C'' 10, holding ''D'' 10, holding ''E'' 10,
        holding ''F'' 10, holding ''G'' 10, holding ''H'' 10, holding ''I'' 10, holding ''J'' 10]
       100 0"

text \<open>Three positions beside cash, and the same account after the largest position has
  grown from 30 to 45 percent and the others have halved.\<close>

definition three_before :: Portfolio where
  "three_before =
     Portfolio_init ''acct'' [holding ''A'' 30, holding ''B'' 20, holding ''C'' 10] 100 40"

definition three_after :: Portfolio where
  "three_after =
     Portfolio_init ''acct'' [holding ''A'' 45, holding ''B'' 10, holding ''C'' 5] 100 40"


section \<open>Evaluation of the examples\<close>

lemmas portfolio_defs =
  Portfolio_init_def Position_init_def calculate_position_weights_def get_sectors_def
  calculate_sector_allocations_def position_sector_def holding_def aapl_def msft_def Let_def

lemmas risk_defs =
  calculate_diversification_risk_def np_std_def np_mean_def calculate_concentration_risk_def
  concentration_penalty_def calculate_sector_risk_def sector_penalty_def
  calculate_market_risk_def market_step_def

lemmas validation_defs =
  validate_trade_def validate_symbol_def rejected_def validate_quantity_def
  apply_quantity_limits_def validate_buy_def validate_sell_def get_position_by_symbol_def
  dict_get_def test_config_def test_quotes_def buy_rec_def sell_rec_def

lemma positions_test_portfolio:
  "positions test_portfolio = [aapl\<lparr>weight := 34\<rparr>, msft\<lparr>weight := 25\<rparr>]"
  by (simp add: test_portfolio_def portfolio_defs)


section \<open>The overall score (C1)\<close>

text \<open>
  C1. Claimed: without historical data the overall score is
  0.25 diversification + 0.25 concentration + 0.20 sector + 0.30 market.
  The result dict is created with the key \<open>"volatility_risk"\<close> (value 0), so the test
  \<open>"volatility_risk" in risk_metrics\<close> always holds and the five-term formula always
  replaces the four-term one. For one position that is the whole account the four scores
  are 95, 100, 100 and 50: the code returns 66.5, the claimed formula gives 83.75.
\<close>

theorem overall_score_without_history:
  "scores (calculate_portfolio_risk single_position_portfolio None) ''overall_risk_score''
     = Some 66.5
   \<and> 0.25 * calculate_diversification_risk single_position_portfolio
       + 0.25 * calculate_concentration_risk single_position_portfolio
       + 0.2 * calculate_sector_risk single_position_portfolio
       + 0.3 * calculate_market_risk single_position_portfolio = 83.75"
  by (simp add: single_position_portfolio_def calculate_portfolio_risk_def initial_scores_def
      portfolio_defs risk_defs)


section \<open>The range of the scores (C2)\<close>

text \<open>
  C2. Claimed: every score lies in [0,100]. The concentration score is only capped from
  above; with cash in the account the index of the weights can fall below 1/n, and the
  normalised value is negative. Two positions of 10 percent each beside 80 percent cash
  score -96.
\<close>

theorem concentration_risk_negative:
  "calculate_concentration_risk cash_heavy_portfolio = - 96"
  by (simp add: cash_heavy_portfolio_def portfolio_defs risk_defs power2_eq_square)


section \<open>The market risk sentinel (C4)\<close>

lemma fold_market_step_no_beta:
  "\<forall>p \<in> set ps. beta p = None \<Longrightarrow> fold market_step ps acc = acc"
  by (induction ps arbitrary: acc) (simp_all add: market_step_def)

text \<open>
  C4, as amended. \<open>calculate_market_risk\<close> returns exactly 50 for every portfolio in which
  no position carries beta data; the empty portfolio is one of them.
\<close>

theorem market_risk_sentinel:
  "\<forall>p \<in> set (positions pf). beta p = None \<Longrightarrow> calculate_market_risk pf = 50"
  by (simp add: calculate_market_risk_def fold_market_step_no_beta)

text \<open>Witness for C4: two positions without beta.\<close>

theorem market_risk_sentinel_witness:
  "map beta (positions cash_heavy_portfolio) = [None, None]
   \<and> calculate_market_risk cash_heavy_portfolio = 50"
proof -
  have b: "map beta (positions cash_heavy_portfolio) = [None, None]"
    by (simp add: cash_heavy_portfolio_def portfolio_defs)
  then have "\<forall>p \<in> set (positions cash_heavy_portfolio). beta p = None"
    by (metis (no_types, lifting) imageI insert_iff list.set_map list.simps(15) empty_iff
        empty_set)
  from market_risk_sentinel [OF this] b show ?thesis by simp
qed

text \<open>Counterexample to C4 as stated: the empty portfolio yields the sentinel 50, not 0.\<close>

theorem market_risk_empty_portfolio:
  "positions empty_portfolio = [] \<and> calculate_market_risk empty_portfolio = 50
   \<and> calculate_market_risk empty_portfolio \<noteq> 0"
  by (simp add: empty_portfolio_def portfolio_defs risk_defs)


section \<open>Weights and cash (C5)\<close>

lemma sum_weights_init:
  "av \<noteq> 0 \<Longrightarrow> sum_list (map weight (calculate_position_weights av ps))
     = sum_list (map market_value ps) / av * 100"
  by (induction ps) (simp_all add: calculate_position_weights_def add_divide_distrib distrib_right)

lemma positions_init: "positions (Portfolio_init aid ps av cash) = calculate_position_weights av ps"
  by (simp add: Portfolio_init_def Let_def)

lemma weights_plus_cash_exact:
  assumes "av > 0" and "av = sum_list (map market_value ps) + cash"
  shows "sum_list (map weight (positions (Portfolio_init aid ps av cash)))
           + cash_allocation (Portfolio_init aid ps av cash) = 100"
proof -
  have nz: "av \<noteq> 0" using assms(1) by simp
  have "sum_list (map weight (positions (Portfolio_init aid ps av cash)))
          = sum_list (map market_value ps) / av * 100"
    by (simp add: positions_init sum_weights_init [OF nz])
  moreover have "cash_allocation (Portfolio_init aid ps av cash) = cash / av * 100"
    using assms(1) by (simp add: cash_allocation_def Portfolio_init_def Let_def)
  ultimately have "sum_list (map weight (positions (Portfolio_init aid ps av cash)))
           + cash_allocation (Portfolio_init aid ps av cash)
         = (sum_list (map market_value ps) + cash) / av * 100"
    by (simp add: add_divide_distrib distrib_right)
  also have "\<dots> = 100" using assms nz by simp
  finally show ?thesis .
qed

text \<open>
  C5, as amended. For every Portfolio with account_value > 0 whose account_value equals
  the market values of its positions plus its cash_balance, after construction the
  position weights plus cash_allocation are 100 within 0.01 (in exact arithmetic they
  are 100).
\<close>

theorem weights_and_cash_total:
  assumes "av > 0" and "av = sum_list (map market_value ps) + cash"
  shows "\<bar>sum_list (map weight (positions (Portfolio_init aid ps av cash)))
           + cash_allocation (Portfolio_init aid ps av cash) - 100\<bar> \<le> 0.01"
  using weights_plus_cash_exact [OF assms] by simp

text \<open>Witness for C5: the portfolio of the tests, 1700 + 1250 + 2050 = 5000.\<close>

theorem weights_and_cash_total_witness:
  "(0::real) < 5000 \<and> (5000::real) = sum_list (map market_value [aapl, msft]) + 2050
   \<and> \<bar>sum_list (map weight (positions test_portfolio)) + cash_allocation test_portfolio - 100\<bar>
       \<le> 0.01"
proof -
  have a: "(0::real) < 5000" by simp
  have b: "(5000::real) = sum_list (map market_value [aapl, msft]) + 2050"
    by (simp add: aapl_def msft_def Position_init_def)
  from weights_and_cash_total [OF a b, of "''test_account''"] a b
  show ?thesis by (simp only: test_portfolio_def)
qed

text \<open>Counterexample to C5 as stated: the constructor takes account_value and
  cash_balance as they come; a position worth 50 in an account reported at 100 with no
  cash gives a total of 50.\<close>

theorem weights_and_cash_total_counterexample:
  "0 < account_value half_reported_portfolio
   \<and> \<not> \<bar>sum_list (map weight (positions half_reported_portfolio))
           + cash_allocation half_reported_portfolio - 100\<bar> \<le> 0.01"
  by (simp add: half_reported_portfolio_def cash_allocation_def portfolio_defs)


section \<open>Monotonicity of the concentration score (C6)\<close>

lemma fold_concentration_penalty:
  "fold concentration_penalty ps a = a + sum_list (map (\<lambda>p. over_ten (weight p)) ps)"
  by (induction ps arbitrary: a) (simp_all add: concentration_penalty_def over_ten_def)

lemma hhi_of_weights:
  "sum_list (map (\<lambda>p. (weight p / 100)\<^sup>2) ps)
     = sum_list (map (\<lambda>p. (weight p)\<^sup>2) ps) / 10000"
  by (induction ps) (simp_all add: power_divide add_divide_distrib)

lemma concentration_risk_weights:
  "calculate_concentration_risk pf = concentration_of_weights (map weight (positions pf))"
  by (simp add: calculate_concentration_risk_def concentration_of_weights_def
      normalized_hhi_of_weights_def Let_def fold_concentration_penalty comp_def hhi_of_weights)

lemma sum_squares_le:
  "\<forall>v \<in> set ws. 0 \<le> v \<and> v \<le> (w::real) \<Longrightarrow> sum_list (map (\<lambda>v. v\<^sup>2) ws) \<le> w * sum_list ws"
proof (induction ws)
  case Nil
  then show ?case by simp
next
  case (Cons v ws)
  then have "v\<^sup>2 \<le> w * v" by (simp add: power2_eq_square mult_right_mono)
  with Cons show ?case by (simp add: distrib_left)
qed

lemma sum_squares_scaled:
  "sum_list (map (\<lambda>v. ((c::real) * v)\<^sup>2) ws) = c\<^sup>2 * sum_list (map (\<lambda>v. v\<^sup>2) ws)"
  by (induction ws) (simp_all add: power_mult_distrib distrib_left)

lemma sum_squares_nonneg: "0 \<le> sum_list (map (\<lambda>v. (v::real)\<^sup>2) ws)"
  by (induction ws) simp_all

text \<open>The sum of squares grows: with \<open>R\<close> the total and \<open>Q\<close> the sum of squares of the
  other weights, \<open>Q \<le> w R\<close> because none of them exceeds \<open>w\<close>.\<close>

lemma hhi_raise:
  fixes w c R Q :: real
  assumes c: "0 \<le> c" "c \<le> 1" and Q: "0 \<le> Q" "Q \<le> w * R"
  shows "w\<^sup>2 + Q \<le> (w + (1 - c) * R)\<^sup>2 + c\<^sup>2 * Q"
proof -
  have c2: "c\<^sup>2 \<le> 1" using c by (simp add: power_le_one)
  have "(1 - c\<^sup>2) * Q \<le> (1 - c\<^sup>2) * (w * R)"
    using c2 Q by (intro mult_left_mono) simp_all
  moreover have "(w + (1 - c) * R)\<^sup>2 - w\<^sup>2 - (1 - c\<^sup>2) * (w * R)
                   = (1 - c)\<^sup>2 * (w * R) + ((1 - c) * R)\<^sup>2"
    by (simp add: power2_eq_square algebra_simps)
  moreover have "0 \<le> w * R" using Q by linarith
  then have "0 \<le> (1 - c)\<^sup>2 * (w * R)" by simp
  then have "0 \<le> (1 - c)\<^sup>2 * (w * R) + ((1 - c) * R)\<^sup>2" by simp
  ultimately have "(1 - c\<^sup>2) * Q \<le> (w + (1 - c) * R)\<^sup>2 - w\<^sup>2" by linarith
  then show ?thesis by (simp add: algebra_simps)
qed

lemma over_ten_nonneg: "0 \<le> sum_list (map over_ten ws)"
  by (induction ws) (simp_all add: over_ten_def)

lemma over_ten_small: "\<forall>v \<in> set ws. v \<le> 10 \<Longrightarrow> sum_list (map over_ten ws) = 0"
  by (induction ws) (simp_all add: over_ten_def)

lemma over_ten_shrink:
  assumes "0 \<le> c" "c \<le> 1" "0 \<le> v"
  shows "over_ten v - over_ten (c * v) \<le> 2 * (1 - c) * v"
proof -
  have "c * v \<le> v" using assms by (simp add: mult_left_le_one_le)
  then show ?thesis by (auto simp: over_ten_def algebra_simps)
qed

lemma over_ten_sum_shrink:
  assumes "0 \<le> c" "c \<le> 1" "\<forall>v \<in> set ws. 0 \<le> v"
  shows "sum_list (map over_ten ws) - sum_list (map (\<lambda>v. over_ten (c * v)) ws)
           \<le> 2 * (1 - c) * sum_list ws"
  using assms(3)
proof (induction ws)
  case Nil
  then show ?case by simp
next
  case (Cons v ws)
  then have a: "over_ten v - over_ten (c * v) \<le> 2 * (1 - c) * v"
    using over_ten_shrink [OF assms(1,2)] by simp
  have b: "sum_list (map over_ten ws) - sum_list (map (\<lambda>v. over_ten (c * v)) ws)
           \<le> 2 * (1 - c) * sum_list ws" using Cons by simp
  have "2 * (1 - c) * sum_list (v # ws) = 2 * (1 - c) * v + 2 * (1 - c) * sum_list ws"
    by (simp add: distrib_left)
  then show ?case using a b by simp
qed

text \<open>The surcharges grow: what the other positions lose is at most twice the weight
  they give up, which the raised position gains when it is above 10; when it is not,
  there was no surcharge before.\<close>

lemma penalty_raise:
  assumes c: "0 \<le> c" "c \<le> 1" and ws: "\<forall>v \<in> set ws. 0 \<le> v \<and> v \<le> w"
  shows "over_ten w + sum_list (map over_ten ws)
           \<le> over_ten (w + (1 - c) * sum_list ws) + sum_list (map (\<lambda>v. over_ten (c * v)) ws)"
proof (cases "w > 10")
  case True
  have R: "0 \<le> sum_list ws" using ws by (simp add: sum_list_nonneg)
  then have "0 \<le> (1 - c) * sum_list ws" using c by simp
  then have "over_ten (w + (1 - c) * sum_list ws) = over_ten w + 2 * (1 - c) * sum_list ws"
    using True by (simp add: over_ten_def algebra_simps)
  moreover have "sum_list (map over_ten ws) - sum_list (map (\<lambda>v. over_ten (c * v)) ws)
           \<le> 2 * (1 - c) * sum_list ws"
    using over_ten_sum_shrink [OF c] ws by simp
  ultimately show ?thesis by linarith
next
  case False
  then have "\<forall>v \<in> set ws. v \<le> 10" using ws by auto
  then have "sum_list (map over_ten ws) = 0" by (rule over_ten_small)
  moreover have "over_ten w = 0" using False by (simp add: over_ten_def)
  moreover have "0 \<le> over_ten (w + (1 - c) * sum_list ws)" by (simp add: over_ten_def)
  moreover have "0 \<le> sum_list (map over_ten (map ((*) c) ws))" by (rule over_ten_nonneg)
  then have "0 \<le> sum_list (map (\<lambda>v. over_ten (c * v)) ws)" by (simp add: comp_def)
  ultimately show ?thesis by linarith
qed

lemma normalized_hhi_mono:
  assumes len: "length ws' = length ws"
    and hhi: "sum_list (map (\<lambda>w. w\<^sup>2) ws) \<le> sum_list (map (\<lambda>w. w\<^sup>2) ws')"
  shows "normalized_hhi_of_weights ws \<le> normalized_hhi_of_weights ws'"
proof (cases "length ws > 1")
  case True
  define n where "n = real (length ws)"
  have "1 < n" using True by (simp add: n_def)
  then have pos: "0 \<le> 1 - 1 / n" by simp
  have "sum_list (map (\<lambda>w. w\<^sup>2) ws) / 10000 - 1 / n
          \<le> sum_list (map (\<lambda>w. w\<^sup>2) ws') / 10000 - 1 / n"
    using hhi by simp
  then have "(sum_list (map (\<lambda>w. w\<^sup>2) ws) / 10000 - 1 / n) / (1 - 1 / n)
          \<le> (sum_list (map (\<lambda>w. w\<^sup>2) ws') / 10000 - 1 / n) / (1 - 1 / n)"
    using pos by (rule divide_right_mono)
  then show ?thesis using True len by (simp add: normalized_hhi_of_weights_def n_def)
next
  case False
  then show ?thesis using len by (simp add: normalized_hhi_of_weights_def)
qed

lemma concentration_of_weights_mono:
  assumes len: "length ws' = length ws"
    and hhi: "sum_list (map (\<lambda>w. w\<^sup>2) ws) \<le> sum_list (map (\<lambda>w. w\<^sup>2) ws')"
    and pen: "sum_list (map over_ten ws) \<le> sum_list (map over_ten ws')"
  shows "concentration_of_weights ws \<le> concentration_of_weights ws'"
proof (cases "ws = []")
  case True
  then show ?thesis using len by (simp add: concentration_of_weights_def)
next
  case False
  then have ne: "ws' \<noteq> []" using len by auto
  have "normalized_hhi_of_weights ws \<le> normalized_hhi_of_weights ws'"
    by (rule normalized_hhi_mono [OF len hhi])
  then have "min (normalized_hhi_of_weights ws * 100 + sum_list (map over_ten ws)) 100
           \<le> min (normalized_hhi_of_weights ws' * 100 + sum_list (map over_ten ws')) 100"
    using pen by (simp add: min_def)
  then show ?thesis using False ne by (simp add: concentration_of_weights_def)
qed

text \<open>
  C6, as amended. If the position whose weight is raised is a largest one (no other
  weight exceeds it, and none is negative), and all other weights shrink by a common
  factor \<open>c\<close> in [0,1] so that the total stays the same, the score of
  \<open>calculate_concentration_risk\<close> does not decrease. The weights before are
  \<open>ws1 @ w # ws2\<close>, the raised position being \<open>w\<close>.
\<close>

theorem concentration_risk_monotone_largest:
  assumes before: "map weight (positions pf) = ws1 @ w # ws2"
    and after: "map weight (positions pf') =
                  map ((*) c) ws1 @ (w + (1 - c) * (sum_list ws1 + sum_list ws2)) # map ((*) c) ws2"
    and c: "0 \<le> c" "c \<le> 1"
    and largest: "\<forall>v \<in> set (ws1 @ ws2). 0 \<le> v \<and> v \<le> w"
  shows "calculate_concentration_risk pf \<le> calculate_concentration_risk pf'"
proof -
  let ?ws = "ws1 @ ws2"
  let ?R = "sum_list ?ws"
  let ?Q = "sum_list (map (\<lambda>v. v\<^sup>2) ?ws)"
  have Q: "0 \<le> ?Q" "?Q \<le> w * ?R"
    using sum_squares_nonneg sum_squares_le [OF largest] by auto
  have "w\<^sup>2 + ?Q \<le> (w + (1 - c) * ?R)\<^sup>2 + c\<^sup>2 * ?Q"
    by (rule hhi_raise [OF c Q])
  then have hhi: "sum_list (map (\<lambda>w. w\<^sup>2) (ws1 @ w # ws2))
      \<le> sum_list (map (\<lambda>w. w\<^sup>2)
            (map ((*) c) ws1 @ (w + (1 - c) * (sum_list ws1 + sum_list ws2)) # map ((*) c) ws2))"
    by (simp add: comp_def sum_squares_scaled distrib_left)
  have "over_ten w + sum_list (map over_ten ?ws)
           \<le> over_ten (w + (1 - c) * ?R) + sum_list (map (\<lambda>v. over_ten (c * v)) ?ws)"
    by (rule penalty_raise [OF c largest])
  then have pen: "sum_list (map over_ten (ws1 @ w # ws2))
      \<le> sum_list (map over_ten
            (map ((*) c) ws1 @ (w + (1 - c) * (sum_list ws1 + sum_list ws2)) # map ((*) c) ws2))"
    by (simp add: comp_def)
  have "concentration_of_weights (ws1 @ w # ws2)
      \<le> concentration_of_weights
           (map ((*) c) ws1 @ (w + (1 - c) * (sum_list ws1 + sum_list ws2)) # map ((*) c) ws2)"
    by (rule concentration_of_weights_mono [OF _ hhi pen]) simp
  then show ?thesis by (simp add: concentration_risk_weights before after)
qed

text \<open>Witness for C6: the largest of the weights 30, 20, 10 grows to 45 while the
  others halve.\<close>

theorem concentration_risk_monotone_largest_witness:
  "map weight (positions three_before) = [] @ 30 # [20, 10]
   \<and> map weight (positions three_after)
       = map ((*) (1 / 2)) [] @ (30 + (1 - 1 / 2) * (sum_list [] + sum_list [20, 10]))
           # map ((*) (1 / 2)) [20, 10]
   \<and> calculate_concentration_risk three_before \<le> calculate_concentration_risk three_after"
proof -
  have b: "map weight (positions three_before) = [] @ 30 # [20, 10]"
    by (simp add: three_before_def portfolio_defs)
  have a: "map weight (positions three_after)
       = map ((*) (1 / 2)) [] @ (30 + (1 - 1 / 2) * (sum_list [] + sum_list [20, 10]))
           # map ((*) (1 / 2)) [20, 10]"
    by (simp add: three_after_def portfolio_defs)
  have c: "(0::real) \<le> 1 / 2" "(1::real) / 2 \<le> 1" by simp_all
  have l: "\<forall>v \<in> set ([] @ [20, 10]). (0::real) \<le> v \<and> v \<le> 30" by simp
  from concentration_risk_monotone_largest [OF b a c l] b a show ?thesis by blast
qed

text \<open>Counterexample to C6 as stated: among ten positions the one of 1 percent grows to
  10 percent while the nine of 11 percent shrink by the common factor 10/11; the score
  falls from 19 to 0.\<close>

theorem concentration_risk_not_monotone:
  "map weight (positions uneven_ten) = [] @ 1 # [11, 11, 11, 11, 11, 11, 11, 11, 11]
   \<and> map weight (positions even_ten)
       = map ((*) (10 / 11)) []
           @ (1 + (1 - 10 / 11) * (sum_list [] + sum_list [11, 11, 11, 11, 11, 11, 11, 11, 11]))
           # map ((*) (10 / 11)) [11, 11, 11, 11, 11, 11, 11, 11, 11]
   \<and> calculate_concentration_risk uneven_ten = 19
   \<and> calculate_concentration_risk even_ten = 0
   \<and> \<not> calculate_concentration_risk uneven_ten \<le> calculate_concentration_risk even_ten"
  by (simp add: uneven_ten_def even_ten_def portfolio_defs risk_defs power2_eq_square)


section \<open>Order of the recommendations (C7)\<close>

lemma sort_reverse_sorted:
  fixes k :: "'a \<Rightarrow> int"
  shows "sorted_wrt (\<lambda>a b. k a \<ge> k b) (sort_reverse k xs)"
proof -
  have "sorted (map (\<lambda>x. - k x) (sort_key (\<lambda>x. - k x) xs))" by (rule sorted_sort_key)
  then show ?thesis by (simp add: sort_reverse_def sorted_wrt_map)
qed

text \<open>
  C7. Whatever the portfolio, the analysis input and the configuration, the list that
  \<open>generate_recommendations\<close> returns is sorted by priority in descending order. The
  statement quantifies over every portfolio, so it holds for every order of the
  positions and of the position risks.
\<close>

theorem recommendations_sorted_by_priority:
  "generate_recommendations config pf prs = Inr recs
     \<Longrightarrow> sorted_wrt (\<lambda>a b. priority a \<ge> priority b) recs"
  by (auto simp: generate_recommendations_def Let_def sort_reverse_sorted split: sum.splits)

text \<open>Witness for C7: the strategy test of tests/test_trading.py; the four
  recommendations come out with the priorities 10, 9, 8, 5.\<close>

theorem recommendations_sorted_by_priority_witness:
  "\<exists>recs. generate_recommendations test_config test_portfolio test_position_risks = Inr recs
          \<and> map priority recs = [10, 9, 8, 5]
          \<and> sorted_wrt (\<lambda>a b. priority a \<ge> priority b) recs"
proof -
  have "\<exists>recs. generate_recommendations test_config test_portfolio test_position_risks = Inr recs
          \<and> map priority recs = [10, 9, 8, 5]"
    by (simp add: test_portfolio_def portfolio_defs test_config_def test_position_risks_def
        generate_recommendations_def check_position_sizes_def check_sector_exposures_def
        check_high_risk_positions_def check_cash_deployment_def
        check_rebalancing_opportunities_def dict_get_def sort_reverse_def py_round_def
        cash_allocation_def get_position_by_symbol_def)
  then obtain recs where
    r: "generate_recommendations test_config test_portfolio test_position_risks = Inr recs"
    and p: "map priority recs = [10, 9, 8, 5]" by (elim exE conjE)
  have "sorted_wrt (\<lambda>a b. priority a \<ge> priority b) recs"
    by (rule recommendations_sorted_by_priority [OF r])
  then show ?thesis using r p by (intro exI [of _ recs] conjI)
qed


section \<open>Gateway failures (C3)\<close>

lemma validate_trade_gateway_failure:
  assumes "get_quote client h [rec_symbol r] = Inl e
           \<or> get_portfolio client (h @ [GetQuote [rec_symbol r]]) = Inl e
           \<or> get_quote client (h @ [GetQuote [rec_symbol r], GetPortfolio]) [rec_symbol r] = Inl e"
  shows "\<exists>vr h'. validate_trade r client config h = (Inr vr, h') \<and> \<not> valid vr"
  using assms
  by (auto simp: validate_trade_def validate_symbol_def rejected_def Let_def
           split: sum.splits prod.splits)

lemma execute_trades_returns: "\<exists>ts. fst (execute_trades recs client config h) = Inr ts"
  by (simp add: execute_trades_def Let_def split: prod.splits)

text \<open>
  C3, as amended. A failure of the gateway while the validator obtains the quotes or the
  portfolio of a recommendation is caught inside \<open>validate_trade\<close>, which returns an
  invalid result instead of raising; the loop of \<open>execute_trades\<close> then skips that
  recommendation and goes on with the next one, and \<open>execute_trades\<close> returns a list to
  its caller: no gateway failure propagates out of it.
\<close>

theorem gateway_failure_is_rejection:
  assumes "get_quote client (h @ [ValidateTrade r]) [rec_symbol r] = Inl e
           \<or> get_portfolio client (h @ [ValidateTrade r, GetQuote [rec_symbol r]]) = Inl e
           \<or> get_quote client (h @ [ValidateTrade r, GetQuote [rec_symbol r], GetPortfolio])
                [rec_symbol r] = Inl e"
    and "int i < max_trades"
  shows "(\<exists>vr. fst (validate_trade r client config (h @ [ValidateTrade r])) = Inr vr \<and> \<not> valid vr)
       \<and> execute_loop client config acct dry_run max_trades n i (r # rest) executed h
           = execute_loop client config acct dry_run max_trades n (Suc i) rest executed
               (snd (validate_trade r client config (h @ [ValidateTrade r])))
       \<and> (\<exists>ts. fst (execute_trades recs client config h) = Inr ts)"
proof -
  from assms(1) obtain vr h' where
    vt: "validate_trade r client config (h @ [ValidateTrade r]) = (Inr vr, h')" and nv: "\<not> valid vr"
    using validate_trade_gateway_failure [of client "h @ [ValidateTrade r]" r e config] by auto
  have "execute_loop client config acct dry_run max_trades n i (r # rest) executed h
           = execute_loop client config acct dry_run max_trades n (Suc i) rest executed h'"
    using assms(2) vt nv by simp
  then show ?thesis using vt nv execute_trades_returns by simp
qed

text \<open>Witness for C3: the first \<open>get_portfolio\<close> of the flaky client raises while the
  sale of AAPL is validated.\<close>

theorem gateway_failure_is_rejection_witness:
  "get_portfolio flaky_client ([] @ [ValidateTrade sell_rec, GetQuote [rec_symbol sell_rec]])
     = Inl (SchwabClientError ''Failed to get portfolio'')
   \<and> (\<exists>vr. fst (validate_trade sell_rec flaky_client test_config ([] @ [ValidateTrade sell_rec]))
             = Inr vr \<and> \<not> valid vr)
   \<and> execute_loop flaky_client test_config None True 3 2 0 (sell_rec # [buy_rec]) [] []
       = execute_loop flaky_client test_config None True 3 2 (Suc 0) [buy_rec] []
           (snd (validate_trade sell_rec flaky_client test_config ([] @ [ValidateTrade sell_rec])))"
proof -
  have f: "get_portfolio flaky_client ([] @ [ValidateTrade sell_rec, GetQuote [rec_symbol sell_rec]])
             = Inl (SchwabClientError ''Failed to get portfolio'')"
    by (simp add: flaky_client_def)
  have i: "int 0 < 3" by simp
  from gateway_failure_is_rejection
         [where client = flaky_client and h = "[]" and r = sell_rec and i = 0 and max_trades = 3
            and e = "SchwabClientError ''Failed to get portfolio''" and config = test_config
            and acct = None and dry_run = True and n = 2 and rest = "[buy_rec]"
            and executed = "[]" and recs = "[]",
          OF disjI2 [OF disjI1 [OF f]] i] f
  show ?thesis by blast
qed

text \<open>Counterexample to C3 as stated: the portfolio request fails while the sale of AAPL
  (priority 8) is validated; \<open>execute_trades\<close> does not raise and the cycle is not
  aborted: the purchase of VTI (priority 5) is validated and submitted, and the list
  of executed trades is returned.\<close>

theorem gateway_failure_not_propagated:
  "get_portfolio flaky_client [ValidateTrade sell_rec, GetQuote [''AAPL'']]
      = Inl (SchwabClientError ''Failed to get portfolio'')
   \<and> execute_trades [buy_rec, sell_rec] flaky_client test_config []
      = (Inr [\<lparr>trade_symbol = ''VTI'', trade_action = BUY, trade_quantity = 5,
               price = None, order_id = None, status = ''simulated''\<rparr>],
         [ValidateTrade sell_rec, GetQuote [''AAPL''], GetPortfolio,
          ValidateTrade buy_rec, GetQuote [''VTI''], GetPortfolio, GetQuote [''VTI''],
          CreateEquityOrder ''VTI'' 5 ''BUY'' True])"
  by (simp add: flaky_client_def execute_trades_def sort_reverse_def validation_defs
      execute_single_trade_def instruction_of_def test_portfolio_def portfolio_defs)


section \<open>Auto-trading disabled (C8)\<close>

text \<open>
  C8. With auto-trading disabled (the key \<open>ENABLE_AUTO_TRADING\<close> false or absent),
  \<open>execute_trades\<close> returns the empty list and leaves the log of calls as it was: it
  calls neither the validator nor the gateway.
\<close>

theorem execute_trades_disabled:
  "\<not> dict_get (ENABLE_AUTO_TRADING config) False
     \<Longrightarrow> execute_trades recommendations client config h = (Inr [], h)"
  by (simp add: execute_trades_def Let_def)

text \<open>Witness for C8: the configuration of the tests with auto-trading switched off.\<close>

theorem execute_trades_disabled_witness:
  "dict_get (ENABLE_AUTO_TRADING (test_config\<lparr>ENABLE_AUTO_TRADING := Some False\<rparr>)) False = False
   \<and> execute_trades [buy_rec, sell_rec] flaky_client
       (test_config\<lparr>ENABLE_AUTO_TRADING := Some False\<rparr>) [] = (Inr [], [])"
proof -
  have d: "\<not> dict_get (ENABLE_AUTO_TRADING (test_config\<lparr>ENABLE_AUTO_TRADING := Some False\<rparr>)) False"
    by (simp add: dict_get_def)
  from execute_trades_disabled [OF d] d show ?thesis by simp
qed


section \<open>Selling (C9)\<close>

text \<open>
  C9. \<open>validate_sell\<close> returns an invalid result whenever the quantity to sell exceeds the
  quantity held, and whenever the remainder after the sale is nonzero but below the
  configured minimum position size (default 1).
\<close>

theorem validate_sell_rejects:
  "position = Some pos \<Longrightarrow>
   qty > quantity pos
     \<or> (quantity pos - qty \<noteq> 0 \<and> quantity pos - qty < dict_get (MIN_POSITION_SIZE config) 1)
   \<Longrightarrow> \<not> valid (validate_sell recommendation position qty config)"
  by (auto simp: validate_sell_def Let_def)

text \<open>Witness for C9: of the 10 shares of AAPL, selling 20 is refused, and so is selling
  9.5, which would leave half a share.\<close>

theorem validate_sell_rejects_witness:
  "quantity aapl = 10
   \<and> \<not> valid (validate_sell sell_rec (Some aapl) 20 test_config)
   \<and> \<not> valid (validate_sell sell_rec (Some aapl) 9.5 test_config)"
proof -
  have q: "quantity aapl = 10" by (simp add: aapl_def Position_init_def)
  have a: "20 > quantity aapl
     \<or> (quantity aapl - 20 \<noteq> 0 \<and> quantity aapl - 20 < dict_get (MIN_POSITION_SIZE test_config) 1)"
    by (simp add: q)
  have b: "9.5 > quantity aapl
     \<or> (quantity aapl - 9.5 \<noteq> 0
         \<and> quantity aapl - 9.5 < dict_get (MIN_POSITION_SIZE test_config) 1)"
    by (simp add: q dict_get_def test_config_def)
  from validate_sell_rejects [OF refl a] validate_sell_rejects [OF refl b] q
  show ?thesis by blast
qed


section \<open>Quantity before percentage (C10)\<close>

text \<open>
  C10. For a recommendation that carries an explicit quantity and a percentage,
  \<open>validate_quantity\<close> gives the same result whatever the percentage field holds (also
  when it is absent), and a valid result carries the explicit quantity, capped at the
  configured maximum quantity (default 10000).
\<close>

theorem explicit_quantity_takes_precedence:
  assumes "rec_quantity recommendation = Some qty" and "percentage recommendation = Some pct"
  shows "validate_quantity recommendation position pf cur_price config
           = validate_quantity (recommendation\<lparr>percentage := other\<rparr>) position pf cur_price config
         \<and> (valid (validate_quantity recommendation position pf cur_price config) \<longrightarrow>
              result_quantity (validate_quantity recommendation position pf cur_price config)
                = min qty (dict_get (MAX_TRADE_QUANTITY config) 10000))"
  using assms by (auto simp: validate_quantity_def apply_quantity_limits_def Let_def min_def)

text \<open>Witness for C10: a purchase of 5 shares that also names 30 percent resolves to 5
  shares, as it does without the percentage.\<close>

theorem explicit_quantity_takes_precedence_witness:
  "rec_quantity both_rec = Some 5 \<and> percentage both_rec = Some 30
   \<and> validate_quantity both_rec None test_portfolio 220 test_config
       = validate_quantity (both_rec\<lparr>percentage := None\<rparr>) None test_portfolio 220 test_config
   \<and> valid (validate_quantity both_rec None test_portfolio 220 test_config)
   \<and> result_quantity (validate_quantity both_rec None test_portfolio 220 test_config) = 5"
proof -
  have q: "rec_quantity both_rec = Some 5" and p: "percentage both_rec = Some 30"
    by (simp_all add: both_rec_def)
  have v: "valid (validate_quantity both_rec None test_portfolio 220 test_config)"
    by (simp add: both_rec_def validate_quantity_def apply_quantity_limits_def dict_get_def
        test_config_def)
  have m: "min (5::real) (dict_get (MAX_TRADE_QUANTITY test_config) 10000) = 5"
    by (simp add: dict_get_def test_config_def)
  note t = explicit_quantity_takes_precedence
             [OF q p, of None test_portfolio 220 test_config None]
  have e: "validate_quantity both_rec None test_portfolio 220 test_config
       = validate_quantity (both_rec\<lparr>percentage := None\<rparr>) None test_portfolio 220 test_config"
    using t by (rule conjunct1)
  have "valid (validate_quantity both_rec None test_portfolio 220 test_config) \<longrightarrow>
          result_quantity (validate_quantity both_rec None test_portfolio 220 test_config)
            = min 5 (dict_get (MAX_TRADE_QUANTITY test_config) 10000)"
    using t by (rule conjunct2)
  then have r: "result_quantity (validate_quantity both_rec None test_portfolio 220 test_config) = 5"
    using v m by (simp only:)
  show ?thesis using q p e v r by (intro conjI)
qed

end
